theory Spec2Isabelle
  imports Complex_Main
begin

section \<open>JavaScript values and exceptions\<close>

text \<open>
  The tool arguments arrive as parsed JSON and are typed \<^verbatim>\<open>any\<close> in
  \<^verbatim>\<open>src/index.ts\<close>. They are modelled by the datatype \<open>js\<close>. The protocol library
  hands the handler either no \<^verbatim>\<open>arguments\<close> member at all (\<open>JUndefined\<close>) or an
  object (\<open>JObj\<close>, an association list that holds each member once, read with
  \<open>map_of\<close>). JSON numbers are rationals; only their truthiness (zero or not) matters
  to the code.
\<close>

datatype js =
    JUndefined
  | JNull
  | JBool bool
  | JNum rat
  | JStr string
  | JArr "js list"
  | JObj "(string \<times> js) list"

text \<open>
  A thrown value. The catch clause of the call handler distinguishes
  \<^verbatim>\<open>error instanceof Error\<close> (it reads \<^verbatim>\<open>error.message\<close>) from any other
  thrown value (it takes \<^verbatim>\<open>String(error)\<close>): \<open>ErrorInstance m\<close> is an Error object
  (TypeError and the client library's errors included) with message \<open>m\<close>, \<open>NonError s\<close>
  is any other thrown value, kept by its string rendering \<open>s\<close>.
\<close>

datatype exn = ErrorInstance string | NonError string

fun error_message :: "exn \<Rightarrow> string" where
  "error_message (ErrorInstance m) = m"
| "error_message (NonError s) = s"

text \<open>Sequencing of computations that may throw: the first throw ends the block.\<close>

fun bind :: "exn + 'a \<Rightarrow> ('a \<Rightarrow> exn + 'b) \<Rightarrow> exn + 'b" where
  "bind (Inl e) f = Inl e"
| "bind (Inr x) f = f x"

text \<open>JavaScript truthiness, and \<^verbatim>\<open>a || b\<close>: the left operand when it is truthy.\<close>

fun truthy :: "js \<Rightarrow> bool" where
  "truthy JUndefined = False"
| "truthy JNull = False"
| "truthy (JBool b) = b"
| "truthy (JNum n) = (n \<noteq> 0)"
| "truthy (JStr s) = (s \<noteq> [])"
| "truthy (JArr xs) = True"
| "truthy (JObj kvs) = True"

definition js_or :: "js \<Rightarrow> js \<Rightarrow> js" where
  "js_or a b = (if truthy a then a else b)"

text \<open>
  The member access \<^verbatim>\<open>args.k\<close>. On \<^verbatim>\<open>undefined\<close> and \<^verbatim>\<open>null\<close> it throws
  a TypeError (the message is Node's); on an object it is the member's value, or
  \<^verbatim>\<open>undefined\<close> when the object has no such member; the members the code reads are
  not built-in members of strings, numbers, booleans or arrays, so there it is
  \<^verbatim>\<open>undefined\<close>.
\<close>

definition cannot_read :: "string \<Rightarrow> string \<Rightarrow> string" where
  "cannot_read v k =
     ''Cannot read properties of '' @ v @ '' (reading '' @ [CHR 0x27] @ k @ [CHR 0x27] @ '')''"

definition lookup_member :: "(string \<times> js) list \<Rightarrow> string \<Rightarrow> js" where
  "lookup_member kvs k = (case map_of kvs k of None \<Rightarrow> JUndefined | Some v \<Rightarrow> v)"

fun get_prop :: "js \<Rightarrow> string \<Rightarrow> exn + js" where
  "get_prop JUndefined k = Inl (ErrorInstance (cannot_read ''undefined'' k))"
| "get_prop JNull k = Inl (ErrorInstance (cannot_read ''null'' k))"
| "get_prop (JObj kvs) k = Inr (lookup_member kvs k)"
| "get_prop (JBool b) k = Inr JUndefined"
| "get_prop (JNum n) k = Inr JUndefined"
| "get_prop (JStr s) k = Inr JUndefined"
| "get_prop (JArr xs) k = Inr JUndefined"

text \<open>
  A field of a record of the remote service, typed \<^verbatim>\<open>T | null | undefined\<close> by the
  client library.
\<close>

datatype 'a maybe = Undefined | Null | Present 'a

text \<open>Truthiness and \<^verbatim>\<open>||\<close> on an optional string: the empty string is falsy.\<close>

fun truthy_str :: "string maybe \<Rightarrow> bool" where
  "truthy_str Undefined = False"
| "truthy_str Null = False"
| "truthy_str (Present s) = (s \<noteq> [])"

definition or_str :: "string maybe \<Rightarrow> string maybe \<Rightarrow> string maybe" where
  "or_str a b = (if truthy_str a then a else b)"

text \<open>An optional string inside a template literal.\<close>

fun template :: "string maybe \<Rightarrow> string" where
  "template Undefined = ''undefined''"
| "template Null = ''null''"
| "template (Present s) = s"

section \<open>Credentials: \<^verbatim>\<open>setupAuth\<close>\<close>

text \<open>
  The environment variables the constructor reads (\<open>None\<close> is an unset variable), and
  the OAuth2 client it builds. Of the client's credentials only the refresh token is set
  by this program.
\<close>

record process_env =
  GOOGLE_CLIENT_ID :: "string option"
  GOOGLE_CLIENT_SECRET :: "string option"
  GOOGLE_REDIRECT_URI :: "string option"
  GOOGLE_REFRESH_TOKEN :: "string option"

record Credentials =
  refresh_token :: "string option"

record OAuth2Client =
  clientId :: string
  clientSecret :: string
  redirectUri :: string
  credentials :: Credentials

text \<open>\<^verbatim>\<open>!v\<close> on an environment variable: unset or empty.\<close>

fun unset :: "string option \<Rightarrow> bool" where
  "unset None = True"
| "unset (Some s) = (s = [])"

fun env_or :: "string option \<Rightarrow> string \<Rightarrow> string" where
  "env_or None d = d"
| "env_or (Some s) d = (if s = [] then d else s)"

definition setupAuth :: "process_env \<Rightarrow> exn + OAuth2Client" where
  "setupAuth env =
     (let redirect = env_or (GOOGLE_REDIRECT_URI env) ''urn:ietf:wg:oauth:2.0:oob'' in
      if unset (GOOGLE_CLIENT_ID env) \<or> unset (GOOGLE_CLIENT_SECRET env)
      then Inl (ErrorInstance
        ''GOOGLE_CLIENT_ID and GOOGLE_CLIENT_SECRET environment variables are required'')
      else Inr \<lparr>clientId = env_or (GOOGLE_CLIENT_ID env) [],
                clientSecret = env_or (GOOGLE_CLIENT_SECRET env) [],
                redirectUri = redirect,
                credentials = \<lparr>refresh_token =
                  (if unset (GOOGLE_REFRESH_TOKEN env) then None
                   else GOOGLE_REFRESH_TOKEN env)\<rparr>\<rparr>)"

section \<open>The tool catalog: the \<^verbatim>\<open>ListToolsRequestSchema\<close> handler\<close>

text \<open>
  The JSON schema literals of the catalog. A property has a \<^verbatim>\<open>type\<close>, a
  \<^verbatim>\<open>description\<close>, and optionally a \<^verbatim>\<open>default\<close> and the \<^verbatim>\<open>type\<close>
  of its \<^verbatim>\<open>items\<close>; a schema optionally lists \<^verbatim>\<open>required\<close> members.
\<close>

record property_schema =
  prop_type :: string
  prop_description :: string
  prop_default :: "js option"
  prop_items_type :: "string option"

record input_schema =
  schema_type :: string
  properties :: "(string \<times> property_schema) list"
  required :: "string list option"

record Tool =
  name :: string
  description :: string
  inputSchema :: input_schema

definition listTools :: "Tool list" where
  "listTools =
     [\<lparr>name = ''list_events'',
       description = ''List upcoming events from Google Calendar'',
       inputSchema = \<lparr>schema_type = ''object'',
         properties =
           [(''calendarId'', \<lparr>prop_type = ''string'',
               prop_description = ''Calendar ID (default: primary)'',
               prop_default = Some (JStr ''primary''), prop_items_type = None\<rparr>),
            (''maxResults'', \<lparr>prop_type = ''number'',
               prop_description = ''Maximum number of events to return'',
               prop_default = Some (JNum 10), prop_items_type = None\<rparr>),
            (''timeMin'', \<lparr>prop_type = ''string'',
               prop_description = ''Lower bound for event start time (ISO 8601)'',
               prop_default = None, prop_items_type = None\<rparr>),
            (''timeMax'', \<lparr>prop_type = ''string'',
               prop_description = ''Upper bound for event start time (ISO 8601)'',
               prop_default = None, prop_items_type = None\<rparr>)],
         required = None\<rparr>\<rparr>,
      \<lparr>name = ''create_event'',
       description = ''Create a new event in Google Calendar'',
       inputSchema = \<lparr>schema_type = ''object'',
         properties =
           [(''calendarId'', \<lparr>prop_type = ''string'',
               prop_description = ''Calendar ID (default: primary)'',
               prop_default = Some (JStr ''primary''), prop_items_type = None\<rparr>),
            (''summary'', \<lparr>prop_type = ''string'',
               prop_description = ''Event title'',
               prop_default = None, prop_items_type = None\<rparr>),
            (''description'', \<lparr>prop_type = ''string'',
               prop_description = ''Event description'',
               prop_default = None, prop_items_type = None\<rparr>),
            (''startDateTime'', \<lparr>prop_type = ''string'',
               prop_description = ''Start date and time (ISO 8601)'',
               prop_default = None, prop_items_type = None\<rparr>),
            (''endDateTime'', \<lparr>prop_type = ''string'',
               prop_description = ''End date and time (ISO 8601)'',
               prop_default = None, prop_items_type = None\<rparr>),
            (''attendees'', \<lparr>prop_type = ''array'',
               prop_description = ''List of attendee email addresses'',
               prop_default = None, prop_items_type = Some ''string''\<rparr>)],
         required = Some [''summary'', ''startDateTime'', ''endDateTime'']\<rparr>\<rparr>,
      \<lparr>name = ''get_auth_url'',
       description = ''Get OAuth2 authorization URL for Google Calendar access'',
       inputSchema = \<lparr>schema_type = ''object'', properties = [], required = None\<rparr>\<rparr>]"

text \<open>
  Reading the catalog: the tool of a given name, the members its schema requires, the
  default its schema declares for a member, and whether an arguments object has every
  member the tool's schema requires.
\<close>

definition tool_named :: "string \<Rightarrow> Tool option" where
  "tool_named n = find (\<lambda>t. name t = n) listTools"

definition required_of :: "string \<Rightarrow> string list" where
  "required_of n =
     (case tool_named n of
        None \<Rightarrow> []
      | Some t \<Rightarrow> (case required (inputSchema t) of None \<Rightarrow> [] | Some ks \<Rightarrow> ks))"

definition declared_default :: "string \<Rightarrow> string \<Rightarrow> js option" where
  "declared_default n k =
     (case tool_named n of
        None \<Rightarrow> None
      | Some t \<Rightarrow> (case map_of (properties (inputSchema t)) k of
                     None \<Rightarrow> None
                   | Some p \<Rightarrow> prop_default p))"

fun has_member :: "js \<Rightarrow> string \<Rightarrow> bool" where
  "has_member (JObj kvs) k = (lookup_member kvs k \<noteq> JUndefined)"
| "has_member v k = False"

definition has_required :: "string \<Rightarrow> js \<Rightarrow> bool" where
  "has_required n args = list_all (has_member args) (required_of n)"

section \<open>The remote calendar service and the runtime\<close>

text \<open>
  The records of the remote service that the handlers read, with the fields they read
  (field names carry a prefix, Isabelle's record fields being global names):
  an event's \<^verbatim>\<open>start\<close> and \<^verbatim>\<open>end\<close> hold a timed \<^verbatim>\<open>dateTime\<close> or an
  all-day \<^verbatim>\<open>date\<close>.
\<close>

record EventDateTime =
  dateTime :: "string maybe"
  date :: "string maybe"

record EventAttendee =
  email :: "string maybe"

record Event =
  ev_id :: "string maybe"
  ev_summary :: "string maybe"
  ev_start :: "EventDateTime maybe"
  ev_end :: "EventDateTime maybe"
  ev_description :: "string maybe"
  ev_attendees :: "EventAttendee list maybe"

text \<open>\<^verbatim>\<open>response.data\<close> of the two remote calls.\<close>

record list_response =
  data_items :: "Event list maybe"

record insert_response =
  data_id :: "string maybe"
  data_htmlLink :: "string maybe"

text \<open>The parameter objects the handlers pass to the remote calls.\<close>

record list_params =
  list_calendarId :: js
  timeMin :: js
  timeMax :: js
  maxResults :: js
  singleEvents :: bool
  orderBy :: string

record EventDateTimeInput =
  in_dateTime :: js
  in_timeZone :: string

record EventInput =
  in_summary :: js
  in_description :: js
  in_start :: EventDateTimeInput
  in_end :: EventDateTimeInput
  in_attendees :: js

record insert_params =
  insert_calendarId :: js
  requestBody :: EventInput

record GenerateAuthUrlOpts =
  access_type :: string
  scope :: "string list"

text \<open>
  The view model that \<^verbatim>\<open>listEvents\<close> builds for each event and serialises.
\<close>

record CalendarEvent =
  id' :: "string maybe"
  summary :: "string maybe"
  start :: "string maybe"
  end' :: "string maybe"
  description' :: "string maybe"
  attendees :: "string maybe list maybe"

text \<open>
  What the program calls and does not define, taken as parameters: the OAuth2 client's
  \<^verbatim>\<open>generateAuthUrl\<close> (a local URL builder), the calendar client's
  \<^verbatim>\<open>events.list\<close> and \<^verbatim>\<open>events.insert\<close> (each returns a response or throws),
  \<^verbatim>\<open>JSON.stringify(\<cdot>, null, 2)\<close> on a sequence of view models, and the clock's
  \<^verbatim>\<open>new Date().toISOString()\<close>.
\<close>

record runtime =
  generateAuthUrl :: "OAuth2Client \<Rightarrow> GenerateAuthUrlOpts \<Rightarrow> string"
  events_list :: "OAuth2Client \<Rightarrow> list_params \<Rightarrow> exn + list_response"
  events_insert :: "OAuth2Client \<Rightarrow> insert_params \<Rightarrow> exn + insert_response"
  JSON_stringify :: "CalendarEvent list \<Rightarrow> string"
  now_toISOString :: string

text \<open>
  The calls a handler hands to the calendar client, in order, with the client they are
  bound to: the effect of an invocation on the remote service.
\<close>

datatype remote_call =
    EventsList OAuth2Client list_params
  | EventsInsert OAuth2Client insert_params

section \<open>Tool results\<close>

record content_item =
  type' :: string
  text' :: string

record tool_result =
  content :: "content_item list"
  isError :: "bool option"

text \<open>A handler's result object: one text item, no \<^verbatim>\<open>isError\<close> member.\<close>

definition text_result :: "string \<Rightarrow> tool_result" where
  "text_result t = \<lparr>content = [\<lparr>type' = ''text'', text' = t\<rparr>], isError = None\<rparr>"

text \<open>The result object of the catch clause.\<close>

definition error_result :: "exn \<Rightarrow> tool_result" where
  "error_result e =
     \<lparr>content = [\<lparr>type' = ''text'', text' = ''Error: '' @ error_message e\<rparr>],
      isError = Some True\<rparr>"

section \<open>The handlers\<close>

subsection \<open>\<^verbatim>\<open>getAuthUrl\<close>\<close>

definition getAuthUrl :: "runtime \<Rightarrow> OAuth2Client \<Rightarrow> (exn + tool_result) \<times> remote_call list" where
  "getAuthUrl R c =
     (let scopes = [''https://www.googleapis.com/auth/calendar''];
          authUrl = generateAuthUrl R c \<lparr>access_type = ''offline'', scope = scopes\<rparr>
      in (Inr (text_result
            (''Please visit this URL to authorize the application:'' @ [CHR 0x0A] @ authUrl
             @ [CHR 0x0A, CHR 0x0A]
             @ ''After authorization, set the GOOGLE_REFRESH_TOKEN environment variable with the refresh token.'')),
          []))"

subsection \<open>\<^verbatim>\<open>listEvents\<close>\<close>

text \<open>
  The parameter object of \<^verbatim>\<open>calendar.events.list\<close>, its members evaluated in the
  order of the object literal.
\<close>

definition listEvents_params :: "runtime \<Rightarrow> js \<Rightarrow> exn + list_params" where
  "listEvents_params R args =
     bind (get_prop args ''calendarId'') (\<lambda>calendarId.
     bind (get_prop args ''timeMin'') (\<lambda>tmin.
     bind (get_prop args ''timeMax'') (\<lambda>tmax.
     bind (get_prop args ''maxResults'') (\<lambda>maxr.
       Inr \<lparr>list_calendarId = js_or calendarId (JStr ''primary''),
            timeMin = js_or tmin (JStr (now_toISOString R)),
            timeMax = tmax,
            maxResults = js_or maxr (JNum 10),
            singleEvents = True,
            orderBy = ''startTime''\<rparr>))))"

text \<open>\<^verbatim>\<open>event.start?.dateTime || event.start?.date\<close>, and the attendees' emails.\<close>

fun chain_dateTime :: "EventDateTime maybe \<Rightarrow> string maybe" where
  "chain_dateTime (Present d) = dateTime d"
| "chain_dateTime v = Undefined"

fun chain_date :: "EventDateTime maybe \<Rightarrow> string maybe" where
  "chain_date (Present d) = date d"
| "chain_date v = Undefined"

fun chain_emails :: "EventAttendee list maybe \<Rightarrow> string maybe list maybe" where
  "chain_emails (Present as) = Present (map email as)"
| "chain_emails v = Undefined"

definition toCalendarEvent :: "Event \<Rightarrow> CalendarEvent" where
  "toCalendarEvent event =
     \<lparr>id' = ev_id event,
      summary = ev_summary event,
      start = or_str (chain_dateTime (ev_start event)) (chain_date (ev_start event)),
      end' = or_str (chain_dateTime (ev_end event)) (chain_date (ev_end event)),
      description' = ev_description event,
      attendees = chain_emails (ev_attendees event)\<rparr>"

text \<open>\<^verbatim>\<open>response.data.items || []\<close>: an array is always truthy.\<close>

fun items_or_empty :: "Event list maybe \<Rightarrow> Event list" where
  "items_or_empty (Present evs) = evs"
| "items_or_empty v = []"

definition listEvents :: "runtime \<Rightarrow> OAuth2Client \<Rightarrow> js \<Rightarrow> (exn + tool_result) \<times> remote_call list" where
  "listEvents R c args =
     (case listEvents_params R args of
        Inl e \<Rightarrow> (Inl e, [])
      | Inr p \<Rightarrow>
          (case events_list R c p of
             Inl e \<Rightarrow> (Inl e, [EventsList c p])
           | Inr response \<Rightarrow>
               (let events = items_or_empty (data_items response) in
                (Inr (text_result (JSON_stringify R (map toCalendarEvent events))),
                 [EventsList c p]))))"

subsection \<open>\<^verbatim>\<open>createEvent\<close>\<close>

text \<open>
  \<^verbatim>\<open>args.attendees?.map((email) => ({ email }))\<close>: \<^verbatim>\<open>undefined\<close> when the member
  is \<^verbatim>\<open>undefined\<close> or \<^verbatim>\<open>null\<close>, one object per element of an array, and a
  TypeError for any other JSON value, which has no function \<^verbatim>\<open>map\<close> (the
  message is Node's).
\<close>

fun attendees_map :: "js \<Rightarrow> exn + js" where
  "attendees_map JUndefined = Inr JUndefined"
| "attendees_map JNull = Inr JUndefined"
| "attendees_map (JArr xs) = Inr (JArr (map (\<lambda>e. JObj [(''email'', e)]) xs))"
| "attendees_map v = Inl (ErrorInstance ''args.attendees?.map is not a function'')"

text \<open>
  The \<^verbatim>\<open>event\<close> payload and then the parameter object of
  \<^verbatim>\<open>calendar.events.insert\<close>, in the order the source evaluates them.
\<close>

definition createEvent_params :: "js \<Rightarrow> exn + insert_params" where
  "createEvent_params args =
     bind (get_prop args ''summary'') (\<lambda>summ.
     bind (get_prop args ''description'') (\<lambda>descr.
     bind (get_prop args ''startDateTime'') (\<lambda>startDateTime.
     bind (get_prop args ''endDateTime'') (\<lambda>endDateTime.
     bind (get_prop args ''attendees'') (\<lambda>att.
     bind (attendees_map att) (\<lambda>atts.
     bind (get_prop args ''calendarId'') (\<lambda>calendarId.
       Inr \<lparr>insert_calendarId = js_or calendarId (JStr ''primary''),
            requestBody =
              \<lparr>in_summary = summ,
               in_description = descr,
               in_start = \<lparr>in_dateTime = startDateTime, in_timeZone = ''UTC''\<rparr>,
               in_end = \<lparr>in_dateTime = endDateTime, in_timeZone = ''UTC''\<rparr>,
               in_attendees = atts\<rparr>\<rparr>)))))))"

definition created_text :: "insert_response \<Rightarrow> string" where
  "created_text response =
     ''Event created successfully!'' @ [CHR 0x0A] @ ''Event ID: '' @ template (data_id response)
     @ [CHR 0x0A] @ ''Event Link: '' @ template (data_htmlLink response)"

definition createEvent :: "runtime \<Rightarrow> OAuth2Client \<Rightarrow> js \<Rightarrow> (exn + tool_result) \<times> remote_call list" where
  "createEvent R c args =
     (case createEvent_params args of
        Inl e \<Rightarrow> (Inl e, [])
      | Inr p \<Rightarrow>
          (case events_insert R c p of
             Inl e \<Rightarrow> (Inl e, [EventsInsert c p])
           | Inr response \<Rightarrow> (Inr (text_result (created_text response)), [EventsInsert c p])))"

section \<open>Dispatch: the \<^verbatim>\<open>CallToolRequestSchema\<close> handler\<close>

text \<open>
  \<open>callTool_try\<close> is the \<^verbatim>\<open>try\<close> block, the \<^verbatim>\<open>switch\<close> on the tool name;
  \<open>callTool\<close> is the whole handler, with the \<^verbatim>\<open>catch\<close> clause. Both also give the
  remote calls made.
\<close>

definition callTool_try :: "runtime \<Rightarrow> OAuth2Client \<Rightarrow> string \<Rightarrow> js \<Rightarrow> (exn + tool_result) \<times> remote_call list" where
  "callTool_try R c nm args =
     (if nm = ''get_auth_url'' then getAuthUrl R c
      else if nm = ''list_events'' then listEvents R c args
      else if nm = ''create_event'' then createEvent R c args
      else (Inl (ErrorInstance (''Unknown tool: '' @ nm)), []))"

definition callTool :: "runtime \<Rightarrow> OAuth2Client \<Rightarrow> string \<Rightarrow> js \<Rightarrow> tool_result \<times> remote_call list" where
  "callTool R c nm args =
     (case callTool_try R c nm args of
        (Inl e, calls) \<Rightarrow> (error_result e, calls)
      | (Inr r, calls) \<Rightarrow> (r, calls))"

section \<open>Reading an authorization URL\<close>

text \<open>
  The authorization URL is built by the OAuth2 library, not by this program. To say what
  a URL carries, its query string is read here: the part after the first \<^verbatim>\<open>?\<close>,
  split at \<^verbatim>\<open>&\<close> into \<^verbatim>\<open>key=value\<close> pairs. Values are compared in their
  written form, percent-escaped as a query string writes them: every byte other than a
  letter, a digit and \<^verbatim>\<open>- _ . ! ~ * ' ( )\<close> becomes \<^verbatim>\<open>%\<close> and two upper-case
  hexadecimal digits. A list of scopes is written as one value, joined by spaces.
\<close>

definition unreserved :: "char \<Rightarrow> bool" where
  "unreserved ch =
     (ch \<in> set ''ABCDEFGHIJKLMNOPQRSTUVWXYZabcdefghijklmnopqrstuvwxyz0123456789-_.!~*()''
      \<or> ch = CHR 0x27)"

definition hex_digits :: string where
  "hex_digits = ''0123456789ABCDEF''"

definition escape_char :: "char \<Rightarrow> string" where
  "escape_char ch =
     (if unreserved ch then [ch]
      else [CHR ''%'', hex_digits ! (of_char ch div 16), hex_digits ! (of_char ch mod 16)])"

definition escape :: "string \<Rightarrow> string" where
  "escape s = concat (map escape_char s)"

fun join_space :: "string list \<Rightarrow> string" where
  "join_space [] = []"
| "join_space [x] = x"
| "join_space (x # y # ys) = x @ '' '' @ join_space (y # ys)"

definition before_first :: "char \<Rightarrow> string \<Rightarrow> string" where
  "before_first d s = takeWhile (\<lambda>x. x \<noteq> d) s"

definition after_first :: "char \<Rightarrow> string \<Rightarrow> string" where
  "after_first d s = drop 1 (dropWhile (\<lambda>x. x \<noteq> d) s)"

fun split_on :: "char \<Rightarrow> string \<Rightarrow> string list" where
  "split_on d [] = [[]]"
| "split_on d (x # xs) =
     (if x = d then [] # split_on d xs
      else (case split_on d xs of [] \<Rightarrow> [[x]] | y # ys \<Rightarrow> (x # y) # ys))"

definition query_param :: "string \<Rightarrow> string \<Rightarrow> string option" where
  "query_param url k =
     map_of (map (\<lambda>kv. (before_first CHR ''='' kv, after_first CHR ''='' kv))
               (split_on CHR ''&'' (after_first CHR ''?'' url))) k"

section \<open>Sample environments\<close>



definition authorized_client :: OAuth2Client where
  "authorized_client =
     \<lparr>clientId = ''client-id'', clientSecret = ''client-secret'',
      redirectUri = ''urn:ietf:wg:oauth:2.0:oob'',
      credentials = \<lparr>refresh_token = Some ''refresh-token''\<rparr>\<rparr>"

definition configured_client :: OAuth2Client where
  "configured_client =
     \<lparr>clientId = ''client-id'', clientSecret = ''client-secret'',
      redirectUri = ''urn:ietf:wg:oauth:2.0:oob'',
      credentials = \<lparr>refresh_token = None\<rparr>\<rparr>"

definition timed_event :: Event where
  "timed_event =
     \<lparr>ev_id = Present ''evt1'', ev_summary = Present ''Standup'',
      ev_start = Present \<lparr>dateTime = Present ''2024-01-01T10:00:00Z'', date = Present ''2024-01-01''\<rparr>,
      ev_end = Present \<lparr>dateTime = Present ''2024-01-01T11:00:00Z'', date = Present ''2024-01-01''\<rparr>,
      ev_description = Undefined,
      ev_attendees = Present [\<lparr>email = Present ''a@example.com''\<rparr>]\<rparr>"


definition render_events :: "CalendarEvent list \<Rightarrow> string" where
  "render_events evs =
     concat (map (\<lambda>e. template (id' e) @ '' '' @ template (start e) @ '' '' @ template (end' e) @ '';'') evs)"

definition answering_runtime :: runtime where
  "answering_runtime =
     \<lparr>generateAuthUrl = (\<lambda>c opts.
        ''https://accounts.google.com/o/oauth2/v2/auth?access_type='' @ access_type opts
        @ ''&scope='' @ concat (scope opts) @ ''&client_id='' @ clientId c),
      events_list = (\<lambda>c p. Inr \<lparr>data_items = Present [timed_event]\<rparr>),
      events_insert = (\<lambda>c p. Inr \<lparr>data_id = Present ''evt2'',
        data_htmlLink = Present ''https://www.google.com/calendar/event?eid=evt2''\<rparr>),
      JSON_stringify = render_events,
      now_toISOString = ''2024-01-01T09:00:00.000Z''\<rparr>"

definition failing_runtime :: runtime where
  "failing_runtime =
     \<lparr>generateAuthUrl = (\<lambda>c opts. ''https://accounts.google.com/o/oauth2/v2/auth''),
      events_list = (\<lambda>c p. Inl (ErrorInstance ''getaddrinfo ENOTFOUND www.googleapis.com'')),
      events_insert = (\<lambda>c p. Inl (ErrorInstance ''getaddrinfo ENOTFOUND www.googleapis.com'')),
      JSON_stringify = render_events,
      now_toISOString = ''2024-01-01T09:00:00.000Z''\<rparr>"


text \<open>
  A URL builder in the manner of the OAuth2 library (the base URL, then the options and
  the client's id and redirect URI as an escaped query string), and the answering runtime
  with this builder.
\<close>

definition oauth2_generateAuthUrl :: "OAuth2Client \<Rightarrow> GenerateAuthUrlOpts \<Rightarrow> string" where
  "oauth2_generateAuthUrl c opts =
     ''https://accounts.google.com/o/oauth2/v2/auth?''
     @ ''access_type='' @ escape (access_type opts)
     @ ''&scope='' @ escape (join_space (scope opts))
     @ ''&response_type=code''
     @ ''&client_id='' @ escape (clientId c)
     @ ''&redirect_uri='' @ escape (redirectUri c)"

definition library_runtime :: runtime where
  "library_runtime = answering_runtime\<lparr>generateAuthUrl := oauth2_generateAuthUrl\<rparr>"

text \<open>A runtime whose calendar client throws a value that is not an Error: a string.\<close>

definition string_throwing_runtime :: runtime where
  "string_throwing_runtime =
     failing_runtime
       \<lparr>events_list := (\<lambda>c p. Inl (NonError ''quota exceeded'')),
        events_insert := (\<lambda>c p. Inl (NonError ''quota exceeded''))\<rparr>"

section \<open>Facts about the handlers\<close>

text \<open>
  The parameter objects the two calendar handlers build from an arguments object: every
  member is read from the object as it came, and the defaults are put in by the
  handlers themselves.
\<close>

lemma listEvents_params_obj:
  "listEvents_params R (JObj kvs) =
     Inr \<lparr>list_calendarId = js_or (lookup_member kvs ''calendarId'') (JStr ''primary''),
          timeMin = js_or (lookup_member kvs ''timeMin'') (JStr (now_toISOString R)),
          timeMax = lookup_member kvs ''timeMax'',
          maxResults = js_or (lookup_member kvs ''maxResults'') (JNum 10),
          singleEvents = True, orderBy = ''startTime''\<rparr>"
  by (simp add: listEvents_params_def)

lemma createEvent_params_obj:
  "createEvent_params (JObj kvs) =
     (case attendees_map (lookup_member kvs ''attendees'') of
        Inl e \<Rightarrow> Inl e
      | Inr atts \<Rightarrow>
          Inr \<lparr>insert_calendarId = js_or (lookup_member kvs ''calendarId'') (JStr ''primary''),
               requestBody =
                 \<lparr>in_summary = lookup_member kvs ''summary'',
                  in_description = lookup_member kvs ''description'',
                  in_start = \<lparr>in_dateTime = lookup_member kvs ''startDateTime'',
                             in_timeZone = ''UTC''\<rparr>,
                  in_end = \<lparr>in_dateTime = lookup_member kvs ''endDateTime'',
                           in_timeZone = ''UTC''\<rparr>,
                  in_attendees = atts\<rparr>\<rparr>)"
  by (simp add: createEvent_params_def split: sum.splits)

text \<open>
  Without an arguments object the first member access throws, before any remote call.
\<close>

lemma listEvents_params_undefined:
  "listEvents_params R JUndefined =
     Inl (ErrorInstance (cannot_read ''undefined'' ''calendarId''))"
  by (simp add: listEvents_params_def)

lemma createEvent_params_undefined:
  "createEvent_params JUndefined =
     Inl (ErrorInstance (cannot_read ''undefined'' ''summary''))"
  by (simp add: createEvent_params_def)

text \<open>
  The call handler on the two calendar tools: when the parameters were built, exactly
  one remote call is made and its outcome decides the result; when building them threw,
  no remote call is made.
\<close>

lemma callTool_list_events:
  "listEvents_params R args = Inr p \<Longrightarrow>
   callTool R c ''list_events'' args =
     (case events_list R c p of
        Inl e \<Rightarrow> error_result e
      | Inr response \<Rightarrow>
          text_result
            (JSON_stringify R (map toCalendarEvent (items_or_empty (data_items response)))),
      [EventsList c p])"
  by (simp add: callTool_def callTool_try_def listEvents_def split: sum.splits)

lemma callTool_list_events_throws:
  "listEvents_params R args = Inl e \<Longrightarrow>
   callTool R c ''list_events'' args = (error_result e, [])"
  by (simp add: callTool_def callTool_try_def listEvents_def)

lemma callTool_create_event:
  "createEvent_params args = Inr p \<Longrightarrow>
   callTool R c ''create_event'' args =
     (case events_insert R c p of
        Inl e \<Rightarrow> error_result e
      | Inr response \<Rightarrow> text_result (created_text response),
      [EventsInsert c p])"
  by (simp add: callTool_def callTool_try_def createEvent_def split: sum.splits)

lemma callTool_create_event_throws:
  "createEvent_params args = Inl e \<Longrightarrow>
   callTool R c ''create_event'' args = (error_result e, [])"
  by (simp add: callTool_def callTool_try_def createEvent_def)

text \<open>
  With an empty arguments object \<^verbatim>\<open>list_events\<close> issues its remote call with the
  defaults: the primary calendar, ten results, the current instant as lower bound and
  no upper bound.
\<close>

lemma listEvents_empty_object_defaults:
  "snd (callTool R c ''list_events'' (JObj [])) =
     [EventsList c
        \<lparr>list_calendarId = JStr ''primary'', timeMin = JStr (now_toISOString R),
         timeMax = JUndefined, maxResults = JNum 10, singleEvents = True,
         orderBy = ''startTime''\<rparr>]"
proof -
  have "listEvents_params R (JObj []) =
     Inr \<lparr>list_calendarId = JStr ''primary'', timeMin = JStr (now_toISOString R),
          timeMax = JUndefined, maxResults = JNum 10, singleEvents = True,
          orderBy = ''startTime''\<rparr>"
    by (simp add: listEvents_params_obj lookup_member_def js_or_def)
  then show ?thesis
    by (simp add: callTool_list_events)
qed

text \<open>Every result of the \<^verbatim>\<open>try\<close> block that is not a throw is one text item.\<close>

lemma callTool_try_Inr:
  "callTool_try R c nm args = (Inr r, calls) \<Longrightarrow> \<exists>t. r = text_result t"
  by (auto simp: callTool_try_def getAuthUrl_def listEvents_def createEvent_def Let_def
      split: if_splits sum.splits)


lemma setupAuth_fails_fast:
  "unset (GOOGLE_CLIENT_ID env) \<or> unset (GOOGLE_CLIENT_SECRET env) \<Longrightarrow>
   setupAuth env = Inl (ErrorInstance
     ''GOOGLE_CLIENT_ID and GOOGLE_CLIENT_SECRET environment variables are required'')"
  by (auto simp: setupAuth_def Let_def)


text \<open>
  An escaped value contains neither \<^verbatim>\<open>&\<close> nor \<^verbatim>\<open>=\<close>, so the sample URL
  builder's query string reads back as the options it was given.
\<close>

lemma of_char_div_16: "(of_char ch :: nat) div 16 < 16"
proof -
  have "(of_char ch :: nat) < 256" by simp
  then show ?thesis by arith
qed

lemma hex_digit_in: "n < 16 \<Longrightarrow> hex_digits ! n \<in> set hex_digits"
proof -
  assume "n < 16"
  moreover have "length hex_digits = 16" by (simp add: hex_digits_def)
  ultimately show ?thesis by (simp only: nth_mem)
qed

lemma escape_char_no_delim:
  "CHR ''&'' \<notin> set (escape_char ch) \<and> CHR ''='' \<notin> set (escape_char ch)"
proof (cases "unreserved ch")
  case True
  then show ?thesis by (auto simp: escape_char_def unreserved_def)
next
  case False
  have a: "hex_digits ! (of_char ch div 16) \<in> set hex_digits"
    by (rule hex_digit_in) (rule of_char_div_16)
  have b: "hex_digits ! (of_char ch mod 16) \<in> set hex_digits"
    by (rule hex_digit_in) simp
  have "CHR ''&'' \<notin> set hex_digits" "CHR ''='' \<notin> set hex_digits"
    by (simp_all add: hex_digits_def)
  with a b False show ?thesis
    by (auto simp: escape_char_def)
qed

lemma escape_no_delim:
  "CHR ''&'' \<notin> set (escape s) \<and> CHR ''='' \<notin> set (escape s)"
  using escape_char_no_delim by (induction s) (auto simp: escape_def)

lemma split_on_append:
  "d \<notin> set xs \<Longrightarrow> split_on d (xs @ d # ys) = xs # split_on d ys"
  by (induction xs) auto

lemma escape_calendar_scope:
  "escape ''offline'' = ''offline'' \<and>
   escape ''https://www.googleapis.com/auth/calendar'' =
     ''https%3A%2F%2Fwww.googleapis.com%2Fauth%2Fcalendar''"
  by (simp add: escape_def escape_char_def unreserved_def hex_digits_def)

lemma oauth2_generateAuthUrl_params:
  "query_param (oauth2_generateAuthUrl c opts) ''access_type'' = Some (escape (access_type opts)) \<and>
   query_param (oauth2_generateAuthUrl c opts) ''scope'' =
     Some (escape (join_space (scope opts)))"
proof -
  define q1 where "q1 = ''access_type='' @ escape (access_type opts)"
  define q2 where "q2 = ''scope='' @ escape (join_space (scope opts))"
  define rest where "rest = ''response_type=code&client_id='' @ escape (clientId c)
     @ ''&redirect_uri='' @ escape (redirectUri c)"
  have query: "after_first CHR ''?'' (oauth2_generateAuthUrl c opts) =
      q1 @ CHR ''&'' # q2 @ CHR ''&'' # rest"
    by (simp add: oauth2_generateAuthUrl_def after_first_def q1_def q2_def rest_def)
  have n1: "CHR ''&'' \<notin> set q1" and n2: "CHR ''&'' \<notin> set q2"
    using escape_no_delim by (simp_all add: q1_def q2_def)
  have "split_on CHR ''&'' (q1 @ CHR ''&'' # q2 @ CHR ''&'' # rest) =
      q1 # q2 # split_on CHR ''&'' rest"
    using n1 n2 by (simp add: split_on_append)
  moreover have "before_first CHR ''='' q1 = ''access_type''"
    and "after_first CHR ''='' q1 = escape (access_type opts)"
    and "before_first CHR ''='' q2 = ''scope''"
    and "after_first CHR ''='' q2 = escape (join_space (scope opts))"
    by (simp_all add: before_first_def after_first_def q1_def q2_def)
  ultimately show ?thesis
    by (simp add: query_param_def query)
qed

section \<open>The claims\<close>

text \<open>
  Claim C1. Whatever is thrown inside the \<^verbatim>\<open>try\<close> block of the call handler, by
  the \<^verbatim>\<open>switch\<close> itself or by a handler (a failing remote call, a failing member
  access), the call handler returns the result
  \<^verbatim>\<open>{content: [{type: "text", text: "Error: " + message}], isError: true}\<close>:
  for a thrown Error with message \<open>m\<close> the text is \<^verbatim>\<open>"Error: "\<close> followed by
  \<open>m\<close>, for any other thrown value it is \<^verbatim>\<open>"Error: "\<close> followed by the value's
  string rendering \<open>s\<close>. \<open>callTool\<close> returns a result on every input: a throw is a
  value \<open>Inl e\<close> of the \<^verbatim>\<open>try\<close> block, and the \<^verbatim>\<open>catch\<close> clause turns each into
  a result, so nothing is thrown to the transport.
\<close>

theorem callTool_catches:
  "(callTool_try R c nm args = (Inl (ErrorInstance m), calls) \<longrightarrow>
      callTool R c nm args =
        (\<lparr>content = [\<lparr>type' = ''text'', text' = ''Error: '' @ m\<rparr>], isError = Some True\<rparr>,
         calls)) \<and>
   (callTool_try R c nm args = (Inl (NonError s), calls) \<longrightarrow>
      callTool R c nm args =
        (\<lparr>content = [\<lparr>type' = ''text'', text' = ''Error: '' @ s\<rparr>], isError = Some True\<rparr>,
         calls)) \<and>
   (listEvents R c args = (Inl (ErrorInstance m1), calls1) \<longrightarrow>
      callTool R c ''list_events'' args =
        (\<lparr>content = [\<lparr>type' = ''text'', text' = ''Error: '' @ m1\<rparr>], isError = Some True\<rparr>,
         calls1)) \<and>
   (listEvents R c args = (Inl (NonError s1), calls1) \<longrightarrow>
      callTool R c ''list_events'' args =
        (\<lparr>content = [\<lparr>type' = ''text'', text' = ''Error: '' @ s1\<rparr>], isError = Some True\<rparr>,
         calls1)) \<and>
   (createEvent R c args = (Inl (ErrorInstance m2), calls2) \<longrightarrow>
      callTool R c ''create_event'' args =
        (\<lparr>content = [\<lparr>type' = ''text'', text' = ''Error: '' @ m2\<rparr>], isError = Some True\<rparr>,
         calls2)) \<and>
   (createEvent R c args = (Inl (NonError s2), calls2) \<longrightarrow>
      callTool R c ''create_event'' args =
        (\<lparr>content = [\<lparr>type' = ''text'', text' = ''Error: '' @ s2\<rparr>], isError = Some True\<rparr>,
         calls2))"
  by (simp add: callTool_def callTool_try_def error_result_def)

text \<open>
  The theorem on an empty arguments object, at a failing network, where the remote
  call of either calendar handler throws an Error, and at a calendar client that
  throws a string.
\<close>

theorem callTool_catches_witness:
  "callTool_try failing_runtime authorized_client ''list_events'' (JObj []) =
     (Inl (ErrorInstance ''getaddrinfo ENOTFOUND www.googleapis.com''),
      [EventsList authorized_client
         \<lparr>list_calendarId = JStr ''primary'', timeMin = JStr ''2024-01-01T09:00:00.000Z'',
          timeMax = JUndefined, maxResults = JNum 10, singleEvents = True,
          orderBy = ''startTime''\<rparr>]) \<and>
   listEvents failing_runtime authorized_client (JObj []) =
     (Inl (ErrorInstance ''getaddrinfo ENOTFOUND www.googleapis.com''),
      [EventsList authorized_client
         \<lparr>list_calendarId = JStr ''primary'', timeMin = JStr ''2024-01-01T09:00:00.000Z'',
          timeMax = JUndefined, maxResults = JNum 10, singleEvents = True,
          orderBy = ''startTime''\<rparr>]) \<and>
   createEvent failing_runtime authorized_client (JObj []) =
     (Inl (ErrorInstance ''getaddrinfo ENOTFOUND www.googleapis.com''),
      [EventsInsert authorized_client
         \<lparr>insert_calendarId = JStr ''primary'',
          requestBody =
            \<lparr>in_summary = JUndefined, in_description = JUndefined,
             in_start = \<lparr>in_dateTime = JUndefined, in_timeZone = ''UTC''\<rparr>,
             in_end = \<lparr>in_dateTime = JUndefined, in_timeZone = ''UTC''\<rparr>,
             in_attendees = JUndefined\<rparr>\<rparr>]) \<and>
   callTool failing_runtime authorized_client ''list_events'' (JObj []) =
     (\<lparr>content = [\<lparr>type' = ''text'',
         text' = ''Error: getaddrinfo ENOTFOUND www.googleapis.com''\<rparr>],
       isError = Some True\<rparr>,
      [EventsList authorized_client
         \<lparr>list_calendarId = JStr ''primary'', timeMin = JStr ''2024-01-01T09:00:00.000Z'',
          timeMax = JUndefined, maxResults = JNum 10, singleEvents = True,
          orderBy = ''startTime''\<rparr>]) \<and>
   callTool failing_runtime authorized_client ''create_event'' (JObj []) =
     (\<lparr>content = [\<lparr>type' = ''text'',
         text' = ''Error: getaddrinfo ENOTFOUND www.googleapis.com''\<rparr>],
       isError = Some True\<rparr>,
      [EventsInsert authorized_client
         \<lparr>insert_calendarId = JStr ''primary'',
          requestBody =
            \<lparr>in_summary = JUndefined, in_description = JUndefined,
             in_start = \<lparr>in_dateTime = JUndefined, in_timeZone = ''UTC''\<rparr>,
             in_end = \<lparr>in_dateTime = JUndefined, in_timeZone = ''UTC''\<rparr>,
             in_attendees = JUndefined\<rparr>\<rparr>]) \<and>
   callTool_try string_throwing_runtime authorized_client ''list_events'' (JObj []) =
     (Inl (NonError ''quota exceeded''),
      [EventsList authorized_client
         \<lparr>list_calendarId = JStr ''primary'', timeMin = JStr ''2024-01-01T09:00:00.000Z'',
          timeMax = JUndefined, maxResults = JNum 10, singleEvents = True,
          orderBy = ''startTime''\<rparr>]) \<and>
   listEvents string_throwing_runtime authorized_client (JObj []) =
     (Inl (NonError ''quota exceeded''),
      [EventsList authorized_client
         \<lparr>list_calendarId = JStr ''primary'', timeMin = JStr ''2024-01-01T09:00:00.000Z'',
          timeMax = JUndefined, maxResults = JNum 10, singleEvents = True,
          orderBy = ''startTime''\<rparr>]) \<and>
   createEvent string_throwing_runtime authorized_client (JObj []) =
     (Inl (NonError ''quota exceeded''),
      [EventsInsert authorized_client
         \<lparr>insert_calendarId = JStr ''primary'',
          requestBody =
            \<lparr>in_summary = JUndefined, in_description = JUndefined,
             in_start = \<lparr>in_dateTime = JUndefined, in_timeZone = ''UTC''\<rparr>,
             in_end = \<lparr>in_dateTime = JUndefined, in_timeZone = ''UTC''\<rparr>,
             in_attendees = JUndefined\<rparr>\<rparr>]) \<and>
   callTool string_throwing_runtime authorized_client ''list_events'' (JObj []) =
     (\<lparr>content = [\<lparr>type' = ''text'', text' = ''Error: quota exceeded''\<rparr>],
       isError = Some True\<rparr>,
      [EventsList authorized_client
         \<lparr>list_calendarId = JStr ''primary'', timeMin = JStr ''2024-01-01T09:00:00.000Z'',
          timeMax = JUndefined, maxResults = JNum 10, singleEvents = True,
          orderBy = ''startTime''\<rparr>]) \<and>
   callTool string_throwing_runtime authorized_client ''create_event'' (JObj []) =
     (\<lparr>content = [\<lparr>type' = ''text'', text' = ''Error: quota exceeded''\<rparr>],
       isError = Some True\<rparr>,
      [EventsInsert authorized_client
         \<lparr>insert_calendarId = JStr ''primary'',
          requestBody =
            \<lparr>in_summary = JUndefined, in_description = JUndefined,
             in_start = \<lparr>in_dateTime = JUndefined, in_timeZone = ''UTC''\<rparr>,
             in_end = \<lparr>in_dateTime = JUndefined, in_timeZone = ''UTC''\<rparr>,
             in_attendees = JUndefined\<rparr>\<rparr>])"
proof -
  have p1: "listEvents_params failing_runtime (JObj []) =
     Inr \<lparr>list_calendarId = JStr ''primary'', timeMin = JStr ''2024-01-01T09:00:00.000Z'',
          timeMax = JUndefined, maxResults = JNum 10, singleEvents = True,
          orderBy = ''startTime''\<rparr>"
    by (simp add: listEvents_params_obj lookup_member_def js_or_def failing_runtime_def)
  have p2: "listEvents_params string_throwing_runtime (JObj []) =
     Inr \<lparr>list_calendarId = JStr ''primary'', timeMin = JStr ''2024-01-01T09:00:00.000Z'',
          timeMax = JUndefined, maxResults = JNum 10, singleEvents = True,
          orderBy = ''startTime''\<rparr>"
    by (simp add: listEvents_params_obj lookup_member_def js_or_def string_throwing_runtime_def failing_runtime_def)
  have q: "createEvent_params (JObj []) =
     Inr \<lparr>insert_calendarId = JStr ''primary'',
          requestBody =
            \<lparr>in_summary = JUndefined, in_description = JUndefined,
             in_start = \<lparr>in_dateTime = JUndefined, in_timeZone = ''UTC''\<rparr>,
             in_end = \<lparr>in_dateTime = JUndefined, in_timeZone = ''UTC''\<rparr>,
             in_attendees = JUndefined\<rparr>\<rparr>"
    by (simp add: createEvent_params_obj lookup_member_def js_or_def)
  have l1: "listEvents failing_runtime authorized_client (JObj []) =
     (Inl (ErrorInstance ''getaddrinfo ENOTFOUND www.googleapis.com''),
      [EventsList authorized_client
         \<lparr>list_calendarId = JStr ''primary'', timeMin = JStr ''2024-01-01T09:00:00.000Z'',
          timeMax = JUndefined, maxResults = JNum 10, singleEvents = True,
          orderBy = ''startTime''\<rparr>])"
    by (simp add: listEvents_def p1) (simp add: failing_runtime_def)
  have l2: "listEvents string_throwing_runtime authorized_client (JObj []) =
     (Inl (NonError ''quota exceeded''),
      [EventsList authorized_client
         \<lparr>list_calendarId = JStr ''primary'', timeMin = JStr ''2024-01-01T09:00:00.000Z'',
          timeMax = JUndefined, maxResults = JNum 10, singleEvents = True,
          orderBy = ''startTime''\<rparr>])"
    by (simp add: listEvents_def p2) (simp add: string_throwing_runtime_def failing_runtime_def)
  have c1: "createEvent failing_runtime authorized_client (JObj []) =
     (Inl (ErrorInstance ''getaddrinfo ENOTFOUND www.googleapis.com''),
      [EventsInsert authorized_client
         \<lparr>insert_calendarId = JStr ''primary'',
          requestBody =
            \<lparr>in_summary = JUndefined, in_description = JUndefined,
             in_start = \<lparr>in_dateTime = JUndefined, in_timeZone = ''UTC''\<rparr>,
             in_end = \<lparr>in_dateTime = JUndefined, in_timeZone = ''UTC''\<rparr>,
             in_attendees = JUndefined\<rparr>\<rparr>])"
    by (simp add: createEvent_def q) (simp add: failing_runtime_def)
  have c2: "createEvent string_throwing_runtime authorized_client (JObj []) =
     (Inl (NonError ''quota exceeded''),
      [EventsInsert authorized_client
         \<lparr>insert_calendarId = JStr ''primary'',
          requestBody =
            \<lparr>in_summary = JUndefined, in_description = JUndefined,
             in_start = \<lparr>in_dateTime = JUndefined, in_timeZone = ''UTC''\<rparr>,
             in_end = \<lparr>in_dateTime = JUndefined, in_timeZone = ''UTC''\<rparr>,
             in_attendees = JUndefined\<rparr>\<rparr>])"
    by (simp add: createEvent_def q) (simp add: string_throwing_runtime_def failing_runtime_def)
  have t1: "callTool_try failing_runtime authorized_client ''list_events'' (JObj []) =
     listEvents failing_runtime authorized_client (JObj [])"
    and t2: "callTool_try string_throwing_runtime authorized_client ''list_events'' (JObj []) =
     listEvents string_throwing_runtime authorized_client (JObj [])"
    by (simp_all add: callTool_try_def)
  note first = callTool_catches
    [where R = failing_runtime and c = authorized_client and nm = "''list_events''"
       and args = "JObj []"
       and m = "''getaddrinfo ENOTFOUND www.googleapis.com''"
       and ?m1.0 = "''getaddrinfo ENOTFOUND www.googleapis.com''"
       and ?m2.0 = "''getaddrinfo ENOTFOUND www.googleapis.com''"
       and calls = "snd (listEvents failing_runtime authorized_client (JObj []))"
       and ?calls1.0 = "snd (listEvents failing_runtime authorized_client (JObj []))"
       and ?calls2.0 = "snd (createEvent failing_runtime authorized_client (JObj []))"]
  note second = callTool_catches
    [where R = string_throwing_runtime and c = authorized_client and nm = "''list_events''"
       and args = "JObj []"
       and s = "''quota exceeded''" and ?s1.0 = "''quota exceeded''"
       and ?s2.0 = "''quota exceeded''"
       and calls = "snd (listEvents string_throwing_runtime authorized_client (JObj []))"
       and ?calls1.0 = "snd (listEvents string_throwing_runtime authorized_client (JObj []))"
       and ?calls2.0 = "snd (createEvent string_throwing_runtime authorized_client (JObj []))"]
  from first second show ?thesis
    by (simp add: t1 t2 l1 l2 c1 c2)
qed

text \<open>
  Claim C2. For a tool name other than \<^verbatim>\<open>get_auth_url\<close>, \<^verbatim>\<open>list_events\<close> and
  \<^verbatim>\<open>create_event\<close> the call handler returns one text item
  \<^verbatim>\<open>"Error: Unknown tool: " + name\<close> with \<^verbatim>\<open>isError: true\<close>, and no handler
  runs: no remote call is made.
\<close>

theorem unknown_tool:
  "nm \<notin> {''get_auth_url'', ''list_events'', ''create_event''} \<Longrightarrow>
   callTool R c nm args =
     (\<lparr>content = [\<lparr>type' = ''text'', text' = ''Error: Unknown tool: '' @ nm\<rparr>],
       isError = Some True\<rparr>,
      [])"
  by (simp add: callTool_def callTool_try_def error_result_def)

theorem unknown_tool_witness:
  "''delete_event'' \<notin> {''get_auth_url'', ''list_events'', ''create_event''} \<and>
   callTool answering_runtime authorized_client ''delete_event'' (JObj []) =
     (\<lparr>content = [\<lparr>type' = ''text'', text' = ''Error: Unknown tool: delete_event''\<rparr>],
       isError = Some True\<rparr>,
      [])"
  using unknown_tool [of "''delete_event''" answering_runtime authorized_client "JObj []"]
  by simp

text \<open>
  Claim C3 as stated, that a \<^verbatim>\<open>create_event\<close> invocation without \<^verbatim>\<open>summary\<close> is answered
  with \<^verbatim>\<open>isError: true\<close> and without a remote insert, fails: \<^verbatim>\<open>createEvent\<close>
  checks none of its arguments. On an arguments object with the two date members and no
  \<^verbatim>\<open>summary\<close>, with a calendar client that answers, the insert call is made with an
  undefined \<^verbatim>\<open>summary\<close> and the result is the success text.
\<close>

theorem createEvent_without_summary_inserts:
  "\<not> has_member
       (JObj [(''startDateTime'', JStr ''2024-01-01T10:00:00Z''),
              (''endDateTime'', JStr ''2024-01-01T11:00:00Z'')]) ''summary'' \<and>
   callTool answering_runtime authorized_client ''create_event''
       (JObj [(''startDateTime'', JStr ''2024-01-01T10:00:00Z''),
              (''endDateTime'', JStr ''2024-01-01T11:00:00Z'')]) =
     (\<lparr>content = [\<lparr>type' = ''text'',
         text' = ''Event created successfully!\<newline>Event ID: evt2\<newline>Event Link: https://www.google.com/calendar/event?eid=evt2''\<rparr>],
       isError = None\<rparr>,
      [EventsInsert authorized_client
         \<lparr>insert_calendarId = JStr ''primary'',
          requestBody =
            \<lparr>in_summary = JUndefined, in_description = JUndefined,
             in_start = \<lparr>in_dateTime = JStr ''2024-01-01T10:00:00Z'', in_timeZone = ''UTC''\<rparr>,
             in_end = \<lparr>in_dateTime = JStr ''2024-01-01T11:00:00Z'', in_timeZone = ''UTC''\<rparr>,
             in_attendees = JUndefined\<rparr>\<rparr>])"
  by (simp add: callTool_def callTool_try_def createEvent_def createEvent_params_obj
      lookup_member_def js_or_def answering_runtime_def text_result_def created_text_def)

text \<open>
  Claim C3, as amended. For a \<^verbatim>\<open>create_event\<close> invocation whose arguments object
  has no \<^verbatim>\<open>summary\<close> member nothing is validated. When the \<^verbatim>\<open>attendees\<close>
  member is absent, \<^verbatim>\<open>null\<close> or an array, the remote insert call is made, with a
  payload whose \<^verbatim>\<open>summary\<close> is undefined, and the result has \<^verbatim>\<open>isError: true\<close>
  exactly when that call throws; when the call returns, the result is the success text.
  When the \<^verbatim>\<open>attendees\<close> member is any other value (a boolean, a number, a string
  or an object), building the payload throws a TypeError and the result is the error
  result, with no remote call.
\<close>

theorem createEvent_without_summary:
  "map_of kvs ''summary'' = None \<Longrightarrow>
   (let payload = (\<lambda>atts.
          \<lparr>insert_calendarId = js_or (lookup_member kvs ''calendarId'') (JStr ''primary''),
           requestBody =
             \<lparr>in_summary = JUndefined,
              in_description = lookup_member kvs ''description'',
              in_start = \<lparr>in_dateTime = lookup_member kvs ''startDateTime'',
                         in_timeZone = ''UTC''\<rparr>,
              in_end = \<lparr>in_dateTime = lookup_member kvs ''endDateTime'',
                       in_timeZone = ''UTC''\<rparr>,
              in_attendees = atts\<rparr>\<rparr>);
        outcome = (\<lambda>p.
          (case events_insert R c p of
             Inl (ErrorInstance m) \<Rightarrow>
               \<lparr>content = [\<lparr>type' = ''text'', text' = ''Error: '' @ m\<rparr>],
                isError = Some True\<rparr>
           | Inl (NonError s) \<Rightarrow>
               \<lparr>content = [\<lparr>type' = ''text'', text' = ''Error: '' @ s\<rparr>],
                isError = Some True\<rparr>
           | Inr response \<Rightarrow>
               \<lparr>content = [\<lparr>type' = ''text'', text' = created_text response\<rparr>],
                isError = None\<rparr>,
           [EventsInsert c p]))
    in
      (lookup_member kvs ''attendees'' = JUndefined \<or> lookup_member kvs ''attendees'' = JNull
         \<longrightarrow> callTool R c ''create_event'' (JObj kvs) = outcome (payload JUndefined)) \<and>
      (\<forall>xs. lookup_member kvs ''attendees'' = JArr xs
         \<longrightarrow> callTool R c ''create_event'' (JObj kvs) =
               outcome (payload (JArr (map (\<lambda>e. JObj [(''email'', e)]) xs)))) \<and>
      ((\<exists>b. lookup_member kvs ''attendees'' = JBool b) \<or>
       (\<exists>n. lookup_member kvs ''attendees'' = JNum n) \<or>
       (\<exists>s. lookup_member kvs ''attendees'' = JStr s) \<or>
       (\<exists>members. lookup_member kvs ''attendees'' = JObj members)
         \<longrightarrow> callTool R c ''create_event'' (JObj kvs) =
               (\<lparr>content = [\<lparr>type' = ''text'',
                   text' = ''Error: args.attendees?.map is not a function''\<rparr>],
                 isError = Some True\<rparr>,
                [])))"
proof -
  assume "map_of kvs ''summary'' = None"
  then have s: "lookup_member kvs ''summary'' = JUndefined"
    by (simp add: lookup_member_def)
  have made: "callTool R c ''create_event'' (JObj kvs) =
      (case events_insert R c p of
         Inl (ErrorInstance m) \<Rightarrow>
           \<lparr>content = [\<lparr>type' = ''text'', text' = ''Error: '' @ m\<rparr>], isError = Some True\<rparr>
       | Inl (NonError s) \<Rightarrow>
           \<lparr>content = [\<lparr>type' = ''text'', text' = ''Error: '' @ s\<rparr>], isError = Some True\<rparr>
       | Inr response \<Rightarrow>
           \<lparr>content = [\<lparr>type' = ''text'', text' = created_text response\<rparr>], isError = None\<rparr>,
       [EventsInsert c p])"
    if "createEvent_params (JObj kvs) = Inr p" for p
    using that
    by (simp add: callTool_create_event error_result_def text_result_def
        split: sum.splits exn.splits)
  have thrown: "callTool R c ''create_event'' (JObj kvs) =
      (\<lparr>content = [\<lparr>type' = ''text'',
          text' = ''Error: args.attendees?.map is not a function''\<rparr>],
        isError = Some True\<rparr>, [])"
    if "attendees_map (lookup_member kvs ''attendees'') =
        Inl (ErrorInstance ''args.attendees?.map is not a function'')"
    using that
    by (simp add: callTool_create_event_throws createEvent_params_obj error_result_def)
  show ?thesis
    unfolding Let_def
    by (intro conjI impI allI)
      (auto simp: s createEvent_params_obj intro!: made thrown)
qed

text \<open>
  The amended claim on three arguments objects without \<^verbatim>\<open>summary\<close>: with
  \<^verbatim>\<open>attendees: null\<close> and a calendar client that answers, the insert call is made
  and the result is the success text; with an array of attendees and a failing network,
  the insert call is made and throws, and only then is the result an error; with a
  string for \<^verbatim>\<open>attendees\<close> the result is the TypeError and no call is made.
\<close>

theorem createEvent_without_summary_witness:
  "map_of [(''startDateTime'', JStr ''2024-01-01T10:00:00Z''), (''attendees'', JNull)]
     ''summary'' = None \<and>
   callTool answering_runtime authorized_client ''create_event''
       (JObj [(''startDateTime'', JStr ''2024-01-01T10:00:00Z''), (''attendees'', JNull)]) =
     (\<lparr>content = [\<lparr>type' = ''text'',
         text' = ''Event created successfully!\<newline>Event ID: evt2\<newline>Event Link: https://www.google.com/calendar/event?eid=evt2''\<rparr>],
       isError = None\<rparr>,
      [EventsInsert authorized_client
         \<lparr>insert_calendarId = JStr ''primary'',
          requestBody =
            \<lparr>in_summary = JUndefined, in_description = JUndefined,
             in_start = \<lparr>in_dateTime = JStr ''2024-01-01T10:00:00Z'', in_timeZone = ''UTC''\<rparr>,
             in_end = \<lparr>in_dateTime = JUndefined, in_timeZone = ''UTC''\<rparr>,
             in_attendees = JUndefined\<rparr>\<rparr>]) \<and>
   map_of [(''attendees'', JArr [JStr ''a@example.com''])] ''summary'' = None \<and>
   callTool failing_runtime authorized_client ''create_event''
       (JObj [(''attendees'', JArr [JStr ''a@example.com''])]) =
     (\<lparr>content = [\<lparr>type' = ''text'',
         text' = ''Error: getaddrinfo ENOTFOUND www.googleapis.com''\<rparr>],
       isError = Some True\<rparr>,
      [EventsInsert authorized_client
         \<lparr>insert_calendarId = JStr ''primary'',
          requestBody =
            \<lparr>in_summary = JUndefined, in_description = JUndefined,
             in_start = \<lparr>in_dateTime = JUndefined, in_timeZone = ''UTC''\<rparr>,
             in_end = \<lparr>in_dateTime = JUndefined, in_timeZone = ''UTC''\<rparr>,
             in_attendees = JArr [JObj [(''email'', JStr ''a@example.com'')]]\<rparr>\<rparr>]) \<and>
   map_of [(''attendees'', JStr ''a@example.com'')] ''summary'' = None \<and>
   callTool answering_runtime authorized_client ''create_event''
       (JObj [(''attendees'', JStr ''a@example.com'')]) =
     (\<lparr>content = [\<lparr>type' = ''text'',
         text' = ''Error: args.attendees?.map is not a function''\<rparr>],
       isError = Some True\<rparr>,
      [])"
proof -
  have h1: "map_of [(''startDateTime'', JStr ''2024-01-01T10:00:00Z''), (''attendees'', JNull)]
     ''summary'' = None"
    and h2: "map_of [(''attendees'', JArr [JStr ''a@example.com''])] ''summary'' = None"
    and h3: "map_of [(''attendees'', JStr ''a@example.com'')] ''summary'' = None"
    by simp_all
  note null_case = createEvent_without_summary [OF h1, of answering_runtime authorized_client]
  note array_case = createEvent_without_summary [OF h2, of failing_runtime authorized_client]
  note string_case = createEvent_without_summary [OF h3, of answering_runtime authorized_client]
  have "callTool answering_runtime authorized_client ''create_event''
       (JObj [(''startDateTime'', JStr ''2024-01-01T10:00:00Z''), (''attendees'', JNull)]) =
     (\<lparr>content = [\<lparr>type' = ''text'',
         text' = ''Event created successfully!\<newline>Event ID: evt2\<newline>Event Link: https://www.google.com/calendar/event?eid=evt2''\<rparr>],
       isError = None\<rparr>,
      [EventsInsert authorized_client
         \<lparr>insert_calendarId = JStr ''primary'',
          requestBody =
            \<lparr>in_summary = JUndefined, in_description = JUndefined,
             in_start = \<lparr>in_dateTime = JStr ''2024-01-01T10:00:00Z'', in_timeZone = ''UTC''\<rparr>,
             in_end = \<lparr>in_dateTime = JUndefined, in_timeZone = ''UTC''\<rparr>,
             in_attendees = JUndefined\<rparr>\<rparr>])"
    using null_case
    by (simp add: Let_def lookup_member_def js_or_def answering_runtime_def created_text_def)
  moreover have "callTool failing_runtime authorized_client ''create_event''
       (JObj [(''attendees'', JArr [JStr ''a@example.com''])]) =
     (\<lparr>content = [\<lparr>type' = ''text'',
         text' = ''Error: getaddrinfo ENOTFOUND www.googleapis.com''\<rparr>],
       isError = Some True\<rparr>,
      [EventsInsert authorized_client
         \<lparr>insert_calendarId = JStr ''primary'',
          requestBody =
            \<lparr>in_summary = JUndefined, in_description = JUndefined,
             in_start = \<lparr>in_dateTime = JUndefined, in_timeZone = ''UTC''\<rparr>,
             in_end = \<lparr>in_dateTime = JUndefined, in_timeZone = ''UTC''\<rparr>,
             in_attendees = JArr [JObj [(''email'', JStr ''a@example.com'')]]\<rparr>\<rparr>])"
    using array_case
    by (simp add: Let_def lookup_member_def js_or_def failing_runtime_def)
  moreover have "callTool answering_runtime authorized_client ''create_event''
       (JObj [(''attendees'', JStr ''a@example.com'')]) =
     (\<lparr>content = [\<lparr>type' = ''text'',
         text' = ''Error: args.attendees?.map is not a function''\<rparr>],
       isError = Some True\<rparr>,
      [])"
    using string_case
    by (simp add: Let_def lookup_member_def)
  ultimately show ?thesis using h1 h2 h3 by simp
qed

text \<open>
  Claim C4, at the failing input. A \<^verbatim>\<open>list_events\<close> invocation that carries no
  \<^verbatim>\<open>arguments\<close> member reaches \<^verbatim>\<open>listEvents\<close> with \<^verbatim>\<open>args\<close> undefined:
  the first member access throws a TypeError, no default is applied and no remote call
  is made. (On the empty object the defaults are applied: \<open>listEvents_empty_object_defaults\<close>.)
\<close>

theorem listEvents_arguments_omitted:
  "callTool R c ''list_events'' JUndefined =
     (\<lparr>content = [\<lparr>type' = ''text'',
         text' = ''Error: Cannot read properties of undefined (reading ''
                 @ [CHR 0x27] @ ''calendarId'' @ [CHR 0x27] @ '')''\<rparr>],
       isError = Some True\<rparr>,
      [])"
  by (simp add: callTool_list_events_throws listEvents_params_undefined error_result_def
      cannot_read_def)

text \<open>
  Claim C5 as stated, that required members are validated and defaults applied before a
  handler is invoked, so that no handler sees arguments without a required member, fails: the
  \<^verbatim>\<open>switch\<close> passes \<^verbatim>\<open>args\<close> on as it came. On the empty object, which has none
  of the members the catalog requires of \<^verbatim>\<open>create_event\<close>, \<^verbatim>\<open>createEvent\<close> runs
  up to its remote insert call, and supplies the default calendar itself.
\<close>

theorem createEvent_runs_on_empty_object:
  "\<not> has_required ''create_event'' (JObj []) \<and>
   snd (callTool answering_runtime authorized_client ''create_event'' (JObj [])) =
     [EventsInsert authorized_client
        \<lparr>insert_calendarId = JStr ''primary'',
         requestBody =
           \<lparr>in_summary = JUndefined, in_description = JUndefined,
            in_start = \<lparr>in_dateTime = JUndefined, in_timeZone = ''UTC''\<rparr>,
            in_end = \<lparr>in_dateTime = JUndefined, in_timeZone = ''UTC''\<rparr>,
            in_attendees = JUndefined\<rparr>\<rparr>]"
  by (simp add: has_required_def required_of_def tool_named_def listTools_def
      callTool_def callTool_try_def createEvent_def createEvent_params_obj
      lookup_member_def js_or_def answering_runtime_def)

text \<open>
  Claim C5, as amended. The dispatch step validates nothing and applies no default: it
  selects the handler by the tool name and hands it the invocation's arguments as they
  came. The defaults of the optional members are applied inside the handlers, once,
  where the parameter object of the remote call is built: \<^verbatim>\<open>calendarId || 'primary'\<close>,
  \<^verbatim>\<open>timeMin || now\<close> and \<^verbatim>\<open>maxResults || 10\<close> in \<^verbatim>\<open>listEvents\<close>,
  \<^verbatim>\<open>calendarId || 'primary'\<close> in \<^verbatim>\<open>createEvent\<close>; the other members are passed
  on as they are, present or not.
\<close>

theorem dispatch_passes_arguments_unchanged:
  "callTool_try R c ''get_auth_url'' args = getAuthUrl R c \<and>
   callTool_try R c ''list_events'' args = listEvents R c args \<and>
   callTool_try R c ''create_event'' args = createEvent R c args \<and>
   listEvents_params R (JObj kvs) =
     Inr \<lparr>list_calendarId =
            (if truthy (lookup_member kvs ''calendarId'') then lookup_member kvs ''calendarId''
             else JStr ''primary''),
          timeMin =
            (if truthy (lookup_member kvs ''timeMin'') then lookup_member kvs ''timeMin''
             else JStr (now_toISOString R)),
          timeMax = lookup_member kvs ''timeMax'',
          maxResults =
            (if truthy (lookup_member kvs ''maxResults'') then lookup_member kvs ''maxResults''
             else JNum 10),
          singleEvents = True, orderBy = ''startTime''\<rparr> \<and>
   createEvent_params (JObj kvs) =
     (case attendees_map (lookup_member kvs ''attendees'') of
        Inl e \<Rightarrow> Inl e
      | Inr atts \<Rightarrow>
          Inr \<lparr>insert_calendarId =
                 (if truthy (lookup_member kvs ''calendarId'')
                  then lookup_member kvs ''calendarId'' else JStr ''primary''),
               requestBody =
                 \<lparr>in_summary = lookup_member kvs ''summary'',
                  in_description = lookup_member kvs ''description'',
                  in_start = \<lparr>in_dateTime = lookup_member kvs ''startDateTime'',
                             in_timeZone = ''UTC''\<rparr>,
                  in_end = \<lparr>in_dateTime = lookup_member kvs ''endDateTime'',
                           in_timeZone = ''UTC''\<rparr>,
                  in_attendees = atts\<rparr>\<rparr>)"
proof -
  have "callTool_try R c ''get_auth_url'' args = getAuthUrl R c"
    by (simp add: callTool_try_def)
  moreover have "callTool_try R c ''list_events'' args = listEvents R c args"
    by (simp add: callTool_try_def)
  moreover have "callTool_try R c ''create_event'' args = createEvent R c args"
    by (simp add: callTool_try_def)
  ultimately show ?thesis
    by (simp add: listEvents_params_obj createEvent_params_obj js_or_def split: sum.splits)
qed




text \<open>
  Claim C7 as stated, that the catalog lists the tools in the order \<^verbatim>\<open>get_auth_url\<close>,
  \<^verbatim>\<open>list_events\<close>, \<^verbatim>\<open>create_event\<close> and declares the default
  \<^verbatim>\<open>timeMin = now\<close>, fails: the catalog starts with \<^verbatim>\<open>list_events\<close>, and its
  schema declares no default for \<^verbatim>\<open>timeMin\<close>.
\<close>

theorem catalog_not_in_table_order:
  "map name listTools \<noteq> [''get_auth_url'', ''list_events'', ''create_event''] \<and>
   declared_default ''list_events'' ''timeMin'' = None"
  by (simp add: listTools_def declared_default_def tool_named_def)

text \<open>
  Claim C7, as amended. The catalog response, given no input, lists the three tools in
  the order \<^verbatim>\<open>list_events\<close>, \<^verbatim>\<open>create_event\<close>, \<^verbatim>\<open>get_auth_url\<close>, each
  with its name, description and input schema. The schema of \<^verbatim>\<open>list_events\<close> has
  the members \<^verbatim>\<open>calendarId\<close>, \<^verbatim>\<open>maxResults\<close>, \<^verbatim>\<open>timeMin\<close>, \<^verbatim>\<open>timeMax\<close>,
  none required, and declares the defaults \<^verbatim>\<open>calendarId = "primary"\<close> and
  \<^verbatim>\<open>maxResults = 10\<close>; it declares no default for \<^verbatim>\<open>timeMin\<close> and
  \<^verbatim>\<open>timeMax\<close>. The schema of \<^verbatim>\<open>create_event\<close> has the members
  \<^verbatim>\<open>calendarId\<close> (default \<^verbatim>\<open>"primary"\<close>), \<^verbatim>\<open>summary\<close>, \<^verbatim>\<open>description\<close>,
  \<^verbatim>\<open>startDateTime\<close>, \<^verbatim>\<open>endDateTime\<close>, \<^verbatim>\<open>attendees\<close> and requires
  \<^verbatim>\<open>summary\<close>, \<^verbatim>\<open>startDateTime\<close>, \<^verbatim>\<open>endDateTime\<close>. The schema of
  \<^verbatim>\<open>get_auth_url\<close> has no members.
\<close>

theorem catalog_contents:
  "map name listTools = [''list_events'', ''create_event'', ''get_auth_url''] \<and>
   map description listTools =
     [''List upcoming events from Google Calendar'',
      ''Create a new event in Google Calendar'',
      ''Get OAuth2 authorization URL for Google Calendar access''] \<and>
   map (\<lambda>t. map fst (properties (inputSchema t))) listTools =
     [[''calendarId'', ''maxResults'', ''timeMin'', ''timeMax''],
      [''calendarId'', ''summary'', ''description'', ''startDateTime'', ''endDateTime'',
       ''attendees''],
      []] \<and>
   map (\<lambda>t. required (inputSchema t)) listTools =
     [None, Some [''summary'', ''startDateTime'', ''endDateTime''], None] \<and>
   required_of ''create_event'' = [''summary'', ''startDateTime'', ''endDateTime''] \<and>
   declared_default ''list_events'' ''calendarId'' = Some (JStr ''primary'') \<and>
   declared_default ''list_events'' ''maxResults'' = Some (JNum 10) \<and>
   declared_default ''list_events'' ''timeMin'' = None \<and>
   declared_default ''list_events'' ''timeMax'' = None \<and>
   declared_default ''create_event'' ''calendarId'' = Some (JStr ''primary'')"
  by (simp add: listTools_def required_of_def declared_default_def tool_named_def)

text \<open>
  Claim C8. \<^verbatim>\<open>get_auth_url\<close> succeeds in every credential state: for every OAuth2
  client, with or without a refresh token, and whatever the arguments, the call handler
  returns one text item without \<^verbatim>\<open>isError\<close> and makes no remote call. The text
  contains the URL that the client's \<^verbatim>\<open>generateAuthUrl\<close> builds for the options
  \<^verbatim>\<open>access_type: 'offline'\<close> and \<^verbatim>\<open>scope\<close> the Google Calendar scope. The
  builder is the OAuth2 library's: given that it writes the options it receives as the
  query parameters \<^verbatim>\<open>access_type\<close> and \<^verbatim>\<open>scope\<close> of the URL, the URL in the
  text has the parameter \<^verbatim>\<open>access_type=offline\<close> and its \<^verbatim>\<open>scope\<close> parameter
  is the (escaped) Google Calendar scope.
\<close>

theorem get_auth_url_any_state:
  "\<forall>opts. query_param (generateAuthUrl R (c\<lparr>credentials := cr\<rparr>) opts) ''access_type'' =
             Some (escape (access_type opts)) \<and>
          query_param (generateAuthUrl R (c\<lparr>credentials := cr\<rparr>) opts) ''scope'' =
             Some (escape (join_space (scope opts))) \<Longrightarrow>
   callTool R (c\<lparr>credentials := cr\<rparr>) ''get_auth_url'' args =
     (\<lparr>content = [\<lparr>type' = ''text'',
         text' = ''Please visit this URL to authorize the application:\<newline>''
           @ generateAuthUrl R (c\<lparr>credentials := cr\<rparr>)
               \<lparr>access_type = ''offline'',
                scope = [''https://www.googleapis.com/auth/calendar'']\<rparr>
           @ ''\<newline>\<newline>After authorization, set the GOOGLE_REFRESH_TOKEN environment variable with the refresh token.''\<rparr>],
       isError = None\<rparr>,
      []) \<and>
   query_param
     (generateAuthUrl R (c\<lparr>credentials := cr\<rparr>)
        \<lparr>access_type = ''offline'', scope = [''https://www.googleapis.com/auth/calendar'']\<rparr>)
     ''access_type'' = Some ''offline'' \<and>
   query_param
     (generateAuthUrl R (c\<lparr>credentials := cr\<rparr>)
        \<lparr>access_type = ''offline'', scope = [''https://www.googleapis.com/auth/calendar'']\<rparr>)
     ''scope'' = Some ''https%3A%2F%2Fwww.googleapis.com%2Fauth%2Fcalendar''"
proof -
  assume contract:
    "\<forall>opts. query_param (generateAuthUrl R (c\<lparr>credentials := cr\<rparr>) opts) ''access_type'' =
             Some (escape (access_type opts)) \<and>
          query_param (generateAuthUrl R (c\<lparr>credentials := cr\<rparr>) opts) ''scope'' =
             Some (escape (join_space (scope opts)))"
  have "callTool R (c\<lparr>credentials := cr\<rparr>) ''get_auth_url'' args =
     (\<lparr>content = [\<lparr>type' = ''text'',
         text' = ''Please visit this URL to authorize the application:\<newline>''
           @ generateAuthUrl R (c\<lparr>credentials := cr\<rparr>)
               \<lparr>access_type = ''offline'',
                scope = [''https://www.googleapis.com/auth/calendar'']\<rparr>
           @ ''\<newline>\<newline>After authorization, set the GOOGLE_REFRESH_TOKEN environment variable with the refresh token.''\<rparr>],
       isError = None\<rparr>,
      [])"
    by (simp add: callTool_def callTool_try_def getAuthUrl_def text_result_def)
  moreover from contract have
    "query_param
       (generateAuthUrl R (c\<lparr>credentials := cr\<rparr>)
          \<lparr>access_type = ''offline'', scope = [''https://www.googleapis.com/auth/calendar'']\<rparr>)
       ''access_type'' = Some (escape ''offline'')"
    and "query_param
       (generateAuthUrl R (c\<lparr>credentials := cr\<rparr>)
          \<lparr>access_type = ''offline'', scope = [''https://www.googleapis.com/auth/calendar'']\<rparr>)
       ''scope'' = Some (escape (join_space [''https://www.googleapis.com/auth/calendar'']))"
    by simp_all
  ultimately show ?thesis
    by (simp add: escape_calendar_scope)
qed

text \<open>
  The theorem at the client without a refresh token, the invocation carrying no
  arguments, and the sample URL builder.
\<close>

theorem get_auth_url_any_state_witness:
  "(\<forall>opts. query_param (generateAuthUrl library_runtime configured_client opts) ''access_type'' =
             Some (escape (access_type opts)) \<and>
           query_param (generateAuthUrl library_runtime configured_client opts) ''scope'' =
             Some (escape (join_space (scope opts)))) \<and>
   refresh_token (credentials configured_client) = None \<and>
   callTool library_runtime configured_client ''get_auth_url'' JUndefined =
     (\<lparr>content = [\<lparr>type' = ''text'',
         text' = ''Please visit this URL to authorize the application:\<newline>https://accounts.google.com/o/oauth2/v2/auth?access_type=offline&scope=https%3A%2F%2Fwww.googleapis.com%2Fauth%2Fcalendar&response_type=code&client_id=client-id&redirect_uri=urn%3Aietf%3Awg%3Aoauth%3A2.0%3Aoob\<newline>\<newline>After authorization, set the GOOGLE_REFRESH_TOKEN environment variable with the refresh token.''\<rparr>],
       isError = None\<rparr>,
      [])"
proof -
  have g: "generateAuthUrl library_runtime = oauth2_generateAuthUrl"
    by (simp add: library_runtime_def)
  have h: "\<forall>opts. query_param (generateAuthUrl library_runtime
                (configured_client\<lparr>credentials := credentials configured_client\<rparr>) opts)
             ''access_type'' = Some (escape (access_type opts)) \<and>
          query_param (generateAuthUrl library_runtime
                (configured_client\<lparr>credentials := credentials configured_client\<rparr>) opts)
             ''scope'' = Some (escape (join_space (scope opts)))"
    by (simp add: g oauth2_generateAuthUrl_params)
  have u: "oauth2_generateAuthUrl configured_client
      \<lparr>access_type = ''offline'', scope = [''https://www.googleapis.com/auth/calendar'']\<rparr> =
      ''https://accounts.google.com/o/oauth2/v2/auth?access_type=offline&scope=https%3A%2F%2Fwww.googleapis.com%2Fauth%2Fcalendar&response_type=code&client_id=client-id&redirect_uri=urn%3Aietf%3Awg%3Aoauth%3A2.0%3Aoob''"
    by (simp add: oauth2_generateAuthUrl_def configured_client_def escape_def escape_char_def
        unreserved_def hex_digits_def)
  from get_auth_url_any_state [OF h, of JUndefined] h u
  show ?thesis
    by (simp add: g configured_client_def)
qed




text \<open>
  Claim C10. Every result of the call handler, from the \<^verbatim>\<open>catch\<close> clause or from
  any of the three handlers, has exactly one content item, of type \<^verbatim>\<open>text\<close>. Its
  \<^verbatim>\<open>isError\<close> member is \<^verbatim>\<open>true\<close> when the \<^verbatim>\<open>try\<close> block threw and is absent
  when it returned.
\<close>

theorem one_text_item:
  "(\<exists>t. content (fst (callTool R c nm args)) = [\<lparr>type' = ''text'', text' = t\<rparr>]) \<and>
   isError (fst (callTool R c nm args)) =
     (case fst (callTool_try R c nm args) of Inl e \<Rightarrow> Some True | Inr r \<Rightarrow> None)"
proof (cases "callTool_try R c nm args")
  case (Pair res calls)
  show ?thesis
  proof (cases res)
    case (Inl e)
    with Pair show ?thesis
      by (simp add: callTool_def error_result_def)
  next
    case (Inr r)
    with Pair obtain t where "r = text_result t"
      using callTool_try_Inr by blast
    with Pair Inr show ?thesis
      by (simp add: callTool_def text_result_def)
  qed
qed

end
